theory Spec2Isabelle
  imports Main
begin

section \<open>Python values\<close>

text \<open>
  The loader works on what \<^verbatim>\<open>json.load\<close> returns: \<^verbatim>\<open>None\<close>, booleans, numbers,
  strings, lists and dictionaries with string keys. A Python \<^verbatim>\<open>str\<close> is a sequence of
  code points, so it is a list of naturals here; \<open>str\<close> turns a literal of the source
  into that form. A dictionary is an association list in insertion order (a Python
  dictionary has each key once; lookup takes the first entry of a key).
\<close>

type_synonym pystr = "nat list"

definition str :: "string \<Rightarrow> pystr" where
  "str cs = map of_char cs"

datatype pyfloat = Dec int int | Inf | NegInf | NaN
  \<comment> \<open>\<open>Dec m e\<close> is the double written \<open>m\<close>e\<open>e\<close>; no operation of the program
      inspects a float\<close>

datatype pyval =
    PNone
  | PBool bool
  | PInt int
  | PFloat pyfloat
  | PStr pystr
  | PList "pyval list"
  | PDict "(pystr \<times> pyval) list"

datatype py_error =
    TypeError | KeyError | ValueError | AttributeError | OSError | SystemExit | ImportError

text \<open>An exception ends the computation: \<open>Inl\<close> carries it, \<open>Inr\<close> the value.\<close>

fun and_then :: "py_error + 'a \<Rightarrow> ('a \<Rightarrow> py_error + 'b) \<Rightarrow> py_error + 'b" where
  "and_then (Inl e) f = Inl e"
| "and_then (Inr x) f = f x"

text \<open>\<^verbatim>\<open>v[k]\<close> with a string key \<open>k\<close>: only a dictionary can be indexed by a string.\<close>

fun py_getitem :: "pyval \<Rightarrow> pystr \<Rightarrow> py_error + pyval" where
  "py_getitem (PDict kvs) k = (case map_of kvs k of None \<Rightarrow> Inl KeyError | Some v \<Rightarrow> Inr v)"
| "py_getitem PNone k = Inl TypeError"
| "py_getitem (PBool b) k = Inl TypeError"
| "py_getitem (PInt i) k = Inl TypeError"
| "py_getitem (PFloat x) k = Inl TypeError"
| "py_getitem (PStr s) k = Inl TypeError"
| "py_getitem (PList xs) k = Inl TypeError"

text \<open>
  \<^verbatim>\<open>for x in v\<close>: a list gives its elements, a string its characters (each a string of
  length one), a dictionary its keys; nothing else is iterable.
\<close>

fun py_iter :: "pyval \<Rightarrow> py_error + pyval list" where
  "py_iter (PList xs) = Inr xs"
| "py_iter (PStr s) = Inr (map (\<lambda>c. PStr [c]) s)"
| "py_iter (PDict kvs) = Inr (map (\<lambda>kv. PStr (fst kv)) kvs)"
| "py_iter PNone = Inl TypeError"
| "py_iter (PBool b) = Inl TypeError"
| "py_iter (PInt i) = Inl TypeError"
| "py_iter (PFloat x) = Inl TypeError"

text \<open>\<^verbatim>\<open>concat += x\<close> for a string \<^verbatim>\<open>concat\<close> (\<open>concat_str\<close> here): \<^verbatim>\<open>x\<close> has to be a
  string too.\<close>

fun str_iadd :: "pystr \<Rightarrow> pyval \<Rightarrow> py_error + pystr" where
  "str_iadd concat_str (PStr s) = Inr (concat_str @ s)"
| "str_iadd concat_str PNone = Inl TypeError"
| "str_iadd concat_str (PBool b) = Inl TypeError"
| "str_iadd concat_str (PInt i) = Inl TypeError"
| "str_iadd concat_str (PFloat x) = Inl TypeError"
| "str_iadd concat_str (PList xs) = Inl TypeError"
| "str_iadd concat_str (PDict kvs) = Inl TypeError"

section \<open>input\_da.py: get\_claim\_evidence\_pairs\<close>

text \<open>The four local lists of \<^verbatim>\<open>get_claim_evidence_pairs\<close>. \<^verbatim>\<open>label_list\<close> starts as
  the empty list and is then assigned to (line 108), so it holds any value.\<close>

record pair_lists =
  claim_list :: "pyval list"
  evidence_list :: "pyval list"
  label_list :: pyval
  document_list :: "pystr list"

definition empty_lists :: pair_lists where
  "empty_lists = \<lparr>claim_list = [], evidence_list = [], label_list = PList [], document_list = []\<rparr>"

text \<open>Lines 96-97: \<^verbatim>\<open>for evidence in claim_set["evidence"]: concat += evidence\<close>.\<close>

fun concat_loop :: "pystr \<Rightarrow> pyval list \<Rightarrow> py_error + pystr" where
  "concat_loop concat_str [] = Inr concat_str"
| "concat_loop concat_str (evidence # rest) =
     and_then (str_iadd concat_str evidence) (\<lambda>concat_str'. concat_loop concat_str' rest)"

text \<open>Lines 94-108, the body of the loop over the claim objects.\<close>

definition claim_set_body :: "bool \<Rightarrow> pair_lists \<Rightarrow> pyval \<Rightarrow> py_error + pair_lists" where
  "claim_set_body concat_evidence st claim_set =
     and_then (py_getitem claim_set (str ''evidence'')) (\<lambda>ev.
     and_then (py_iter ev) (\<lambda>items.
     and_then (concat_loop [] items) (\<lambda>concat_str.
     and_then (if concat_evidence then Inr (PStr concat_str)
               else py_getitem claim_set (str ''evidence'')) (\<lambda>entry.
     and_then (py_getitem claim_set (str ''claim'')) (\<lambda>claim.
     and_then (str_iadd concat_str claim) (\<lambda>document.
     and_then (py_getitem claim_set (str ''label'')) (\<lambda>label.
       Inr (st\<lparr>evidence_list := evidence_list st @ [entry],
               claim_list := claim_list st @ [claim],
               document_list := document_list st @ [document],
               label_list := label\<rparr>))))))))"

text \<open>Line 93: \<^verbatim>\<open>for claim_set in dict\<close>.\<close>

fun claim_sets_loop :: "bool \<Rightarrow> pair_lists \<Rightarrow> pyval list \<Rightarrow> py_error + pair_lists" where
  "claim_sets_loop concat_evidence st [] = Inr st"
| "claim_sets_loop concat_evidence st (claim_set # rest) =
     and_then (claim_set_body concat_evidence st claim_set)
       (\<lambda>st'. claim_sets_loop concat_evidence st' rest)"

text \<open>
  The whole function. Line 90 prints \<^verbatim>\<open>dict["claim"]\<close> and \<^verbatim>\<open>dict["evidence"]\<close>: the two
  subscripts are evaluated, in this order, before anything is printed; what is printed
  is not part of the model. The parameter \<^verbatim>\<open>mode\<close> is never read.
\<close>

definition get_claim_evidence_pairs ::
    "pyval \<Rightarrow> pyval \<Rightarrow> bool \<Rightarrow> py_error + (pyval list \<times> pyval list \<times> pystr list \<times> pyval)" where
  "get_claim_evidence_pairs dict mode concat_evidence =
     and_then (py_getitem dict (str ''claim'')) (\<lambda>printed_claim.
     and_then (py_getitem dict (str ''evidence'')) (\<lambda>printed_evidence.
     and_then (py_iter dict) (\<lambda>claim_sets.
     and_then (claim_sets_loop concat_evidence empty_lists claim_sets) (\<lambda>st.
       Inr (claim_list st, evidence_list st, document_list st, label_list st)))))"

section \<open>input\_da.py: load\_nli\<close>

text \<open>
  The vectorizers and the cosine similarity are library code. A fitted vectorizer maps
  one document to one row, \<^verbatim>\<open>fit\<close> can raise (an empty vocabulary), \<^verbatim>\<open>transform\<close> gives
  one row per document and needs every document to be a string, and
  \<^verbatim>\<open>cosine_similarity(X, Y)\<close> is the matrix of the similarities of every row of \<^verbatim>\<open>X\<close> with
  every row of \<^verbatim>\<open>Y\<close>, refusing an empty \<^verbatim>\<open>X\<close> or \<^verbatim>\<open>Y\<close>. The similarity of two rows, a
  floating-point number, is the parameter \<open>cos\<close>.
\<close>

fun transform :: "(pystr \<Rightarrow> 'v) \<Rightarrow> pyval list \<Rightarrow> py_error + 'v list" where
  "transform vec [] = Inr []"
| "transform vec (PStr s # rest) = and_then (transform vec rest) (\<lambda>rows. Inr (vec s # rows))"
| "transform vec (d # rest) = Inl AttributeError"

definition cosine_similarity :: "('v \<Rightarrow> 'v \<Rightarrow> 's) \<Rightarrow> 'v list \<Rightarrow> 'v list \<Rightarrow> py_error + 's list list" where
  "cosine_similarity cos X Y =
     (if X = [] \<or> Y = [] then Inl ValueError else Inr (map (\<lambda>x. map (cos x) Y) X))"

text \<open>Lines 85-87: the tuples yielded from \<^verbatim>\<open>zip\<close>, which stops with its shortest argument.\<close>

fun yield_loop :: "'a list \<Rightarrow> 'a list \<Rightarrow> 's list list \<Rightarrow> pyval list \<Rightarrow> ('a \<times> 's list \<times> 'a \<times> pyval) list" where
  "yield_loop (tf_claim # cs) (tf_evidence # es) (tfidf_sim # sims) (label # ls) =
     (tf_claim, tfidf_sim, tf_evidence, label) # yield_loop cs es sims ls"
| "yield_loop cs es sims ls = []"

text \<open>
  Lines 73-87, from the four values \<^verbatim>\<open>get_claim_evidence_pairs\<close> returned. The result is
  the run of the generator to its end: the list of the tuples it yields, or the exception
  it raises; every statement that can raise comes before the first \<^verbatim>\<open>yield\<close>.
\<close>

definition load_nli_tuples ::
    "(pystr list \<Rightarrow> py_error + (pystr \<Rightarrow> 'a)) \<Rightarrow> (pystr list \<Rightarrow> py_error + (pystr \<Rightarrow> 'b)) \<Rightarrow>
     ('b \<Rightarrow> 'b \<Rightarrow> 's) \<Rightarrow> pyval list \<Rightarrow> pyval list \<Rightarrow> pystr list \<Rightarrow> pyval \<Rightarrow>
     py_error + ('a \<times> 's list \<times> 'a \<times> pyval) list" where
  "load_nli_tuples fit_tf fit_tfidf cos claims evidences documents labels =
     and_then (fit_tf documents) (\<lambda>tf_vec.
     and_then (fit_tfidf documents) (\<lambda>tfidf_vec.
     and_then (transform tf_vec claims) (\<lambda>tf_claims.
     and_then (transform tf_vec evidences) (\<lambda>tf_evidences.
     and_then (transform tfidf_vec claims) (\<lambda>tfidf_claims.
     and_then (transform tfidf_vec evidences) (\<lambda>tfidf_evidences.
     and_then (cosine_similarity cos tfidf_claims tfidf_evidences) (\<lambda>tfidf_sims.
     and_then (py_iter labels) (\<lambda>label_items.
       Inr (yield_loop tf_claims tf_evidences tfidf_sims label_items)))))))))"

text \<open>\<^verbatim>\<open>load_nli(file)\<close>; \<open>read_json\<close> is \<^verbatim>\<open>open\<close> followed by \<^verbatim>\<open>json.load\<close>.\<close>

definition load_nli ::
    "(pystr \<Rightarrow> py_error + pyval) \<Rightarrow>
     (pystr list \<Rightarrow> py_error + (pystr \<Rightarrow> 'a)) \<Rightarrow> (pystr list \<Rightarrow> py_error + (pystr \<Rightarrow> 'b)) \<Rightarrow>
     ('b \<Rightarrow> 'b \<Rightarrow> 's) \<Rightarrow> pystr \<Rightarrow> py_error + ('a \<times> 's list \<times> 'a \<times> pyval) list" where
  "load_nli read_json fit_tf fit_tfidf cos file =
     and_then (read_json file) (\<lambda>data.
     and_then (get_claim_evidence_pairs data (PStr (str ''concat'')) True)
       (\<lambda>(claims, evidences, documents, labels).
          load_nli_tuples fit_tf fit_tfidf cos claims evidences documents labels))"

section \<open>input\_da.py: the input-function factories and load\_fever\_chunk\<close>

text \<open>
  Each factory returns its inner function \<^verbatim>\<open>_input_fn(mode=None, params=None)\<close>. The inner
  function has a parameter \<^verbatim>\<open>mode\<close> of its own, as the \<open>\<lambda>\<close> below has; a call that leaves
  an argument out gets the default \<^verbatim>\<open>None\<close>, which \<open>call_input_fn\<close> fills in. The block
  \<^verbatim>\<open>with tf.device('/cpu:0')\<close> places operations and changes no value.
\<close>

definition call_input_fn :: "(pyval \<Rightarrow> pyval \<Rightarrow> 'r) \<Rightarrow> pyval option \<Rightarrow> pyval option \<Rightarrow> 'r" where
  "call_input_fn input_fn mode params =
     input_fn (case mode of None \<Rightarrow> PNone | Some m \<Rightarrow> m)
              (case params of None \<Rightarrow> PNone | Some p \<Rightarrow> p)"

definition get_input_fn :: "pyval \<Rightarrow> pyval \<Rightarrow> pyval \<Rightarrow> py_error + pyval" where
  "get_input_fn mode = (\<lambda>mode params.
     and_then (if mode = PStr (str ''train'') then Inr PNone
               else if mode = PStr (str ''eval'') \<or> mode = PStr (str ''predict'') then Inr PNone
               else Inl ValueError)
       (\<lambda>dataset. Inr dataset))"

text \<open>
  In \<^verbatim>\<open>get_input_fn_nli\<close> the call \<^verbatim>\<open>load_nli(...)\<close> creates a generator and runs none of its
  body, so \<^verbatim>\<open>ds_gen\<close> is the run still to come. \<open>from_generator\<close> is the framework:
  \<^verbatim>\<open>tf.data.Dataset.from_generator\<close> followed by \<^verbatim>\<open>make_one_shot_iterator().get_next()\<close>.
\<close>

definition get_input_fn_nli ::
    "(pystr \<Rightarrow> py_error + pyval) \<Rightarrow>
     (pystr list \<Rightarrow> py_error + (pystr \<Rightarrow> 'a)) \<Rightarrow> (pystr list \<Rightarrow> py_error + (pystr \<Rightarrow> 'b)) \<Rightarrow>
     ('b \<Rightarrow> 'b \<Rightarrow> 's) \<Rightarrow> (py_error + ('a \<times> 's list \<times> 'a \<times> pyval) list \<Rightarrow> py_error + 'it) \<Rightarrow>
     pyval \<Rightarrow> pyval \<Rightarrow> pyval \<Rightarrow> py_error + 'it" where
  "get_input_fn_nli read_json fit_tf fit_tfidf cos from_generator mode = (\<lambda>mode params.
     and_then (if mode = PStr (str ''train'')
                 then Inr (load_nli read_json fit_tf fit_tfidf cos (str ''example_train.''))
               else if mode = PStr (str ''eval'') \<or> mode = PStr (str ''predict'')
                 then Inr (load_nli read_json fit_tf fit_tfidf cos (str ''example_dev.csv''))
               else Inl ValueError)
       (\<lambda>ds_gen. from_generator ds_gen))"

text \<open>
  \<^verbatim>\<open>load_fever_chunk\<close>, lines 156-157: a loop over the pairs of the list literal \<^verbatim>\<open>[]\<close>,
  calling \<^verbatim>\<open>pd.read_csv\<close> for each. The function has no \<^verbatim>\<open>yield\<close> and no \<^verbatim>\<open>return\<close>: a call
  runs the loop and returns \<^verbatim>\<open>None\<close>. The result here is the list of the \<^verbatim>\<open>read_csv\<close>
  calls made, with what the call returns or raises.
\<close>

fun chunk_loop ::
    "(pystr \<Rightarrow> int \<Rightarrow> int \<Rightarrow> py_error + 'df) \<Rightarrow> pystr \<Rightarrow> (int \<times> int) list \<Rightarrow>
     (pystr \<times> int \<times> int) list \<Rightarrow> (pystr \<times> int \<times> int) list \<times> (py_error + pyval)" where
  "chunk_loop read_csv file [] reads = (reads, Inr PNone)"
| "chunk_loop read_csv file ((begin_row, end_row) # rest) reads =
     (case read_csv file begin_row end_row of
        Inl e \<Rightarrow> (reads @ [(file, begin_row, end_row)], Inl e)
      | Inr df \<Rightarrow> chunk_loop read_csv file rest (reads @ [(file, begin_row, end_row)]))"

definition load_fever_chunk ::
    "(pystr \<Rightarrow> int \<Rightarrow> int \<Rightarrow> py_error + 'df) \<Rightarrow> pystr \<Rightarrow> int \<Rightarrow>
     (pystr \<times> int \<times> int) list \<times> (py_error + pyval)" where
  "load_fever_chunk read_csv file chunk_size = chunk_loop read_csv file [] []"

definition get_input_fn_fever ::
    "(pystr \<Rightarrow> int \<Rightarrow> int \<Rightarrow> py_error + 'df) \<Rightarrow> (pyval \<Rightarrow> py_error + 'it) \<Rightarrow>
     pyval \<Rightarrow> pyval \<Rightarrow> pyval \<Rightarrow> py_error + 'it" where
  "get_input_fn_fever read_csv from_generator mode = (\<lambda>mode params.
     and_then (if mode = PStr (str ''train'')
                 then snd (load_fever_chunk read_csv (str ''example_train.csv'') 2)
               else if mode = PStr (str ''eval'') \<or> mode = PStr (str ''predict'')
                 then snd (load_fever_chunk read_csv (str ''example_dev.csv'') 2)
               else Inl ValueError)
       (\<lambda>ds_gen. from_generator ds_gen))"

section \<open>main.py: the command line and main\<close>

text \<open>
  The arguments declared on the parser (lines 113-187), one record for each
  \<^verbatim>\<open>add_argument\<close>, without the help texts. \<open>default_value\<close> is \<^verbatim>\<open>None\<close> where no default
  is declared.
\<close>

datatype arg_type = Int_type | Str_type | Float_type

record argument =
  option_strings :: "string list"
  arg_type :: arg_type
  choices :: "pyval list option"
  required :: bool
  default_value :: pyval
  dest :: string

definition parser :: "argument list" where
  "parser =
    [\<lparr>option_strings = [''-m'', ''--model''], arg_type = Int_type,
      choices = Some [PInt 1, PInt 2], required = True, default_value = PNone,
      dest = ''model_type''\<rparr>,
     \<lparr>option_strings = [''-i'', ''--data-dir''], arg_type = Str_type,
      choices = None, required = True, default_value = PNone, dest = ''data_dir''\<rparr>,
     \<lparr>option_strings = [''-o'', ''--output-dir''], arg_type = Str_type,
      choices = None, required = True, default_value = PNone, dest = ''output_dir''\<rparr>,
     \<lparr>option_strings = [''-j'', ''--job-id''], arg_type = Int_type,
      choices = None, required = True, default_value = PNone, dest = ''job_id''\<rparr>,
     \<lparr>option_strings = [''-a'', ''--array-job''], arg_type = Int_type,
      choices = None, required = False, default_value = PInt 1, dest = ''repeats''\<rparr>,
     \<lparr>option_strings = [''-n'', ''--num-gpus''], arg_type = Int_type,
      choices = None, required = False, default_value = PInt 1, dest = ''num_gpus''\<rparr>,
     \<lparr>option_strings = [''-c'', ''--num-cpu-cores''], arg_type = Int_type,
      choices = None, required = False, default_value = PInt 4, dest = ''num_cores''\<rparr>,
     \<lparr>option_strings = [''-s'', ''--train-steps''], arg_type = Int_type,
      choices = None, required = False, default_value = PInt 100, dest = ''train_steps''\<rparr>,
     \<lparr>option_strings = [''-b'', ''--batch-size''], arg_type = Int_type,
      choices = None, required = False, default_value = PInt 128, dest = ''batch_size''\<rparr>,
     \<lparr>option_strings = [''-e'', ''--eval-batch-size''], arg_type = Int_type,
      choices = None, required = False, default_value = PInt 128, dest = ''eval_batch_size''\<rparr>,
     \<lparr>option_strings = [''-l'', ''--learning-rate''], arg_type = Float_type,
      choices = None, required = False, default_value = PFloat (Dec 5 (- 4)),
      dest = ''learning_rate''\<rparr>,
     \<lparr>option_strings = [''-u'', ''--cutoff''], arg_type = Int_type,
      choices = None, required = False, default_value = PInt 500, dest = ''cutoff_len''\<rparr>]"

text \<open>
  \<^verbatim>\<open>parse_args\<close> is library code. For each declared argument, \<open>given\<close> holds the string
  the command line supplies for it, if any. A supplied string is converted by the
  declared type (\<open>py_int\<close> and \<open>py_float\<close> are Python's \<^verbatim>\<open>int\<close> and \<^verbatim>\<open>float\<close> on a string)
  and checked against the choices; an argument not supplied takes its default unless
  it is required. Every failure ends the program (\<^verbatim>\<open>SystemExit\<close>). The namespace has one
  entry for each declared argument, under its \<^verbatim>\<open>dest\<close>.
\<close>

fun convert :: "(pystr \<Rightarrow> int option) \<Rightarrow> (pystr \<Rightarrow> pyfloat option) \<Rightarrow> arg_type \<Rightarrow> pystr \<Rightarrow> pyval option" where
  "convert py_int py_float Int_type s = map_option PInt (py_int s)"
| "convert py_int py_float Str_type s = Some (PStr s)"
| "convert py_int py_float Float_type s = map_option PFloat (py_float s)"

fun parse_argument ::
    "(pystr \<Rightarrow> int option) \<Rightarrow> (pystr \<Rightarrow> pyfloat option) \<Rightarrow> argument \<Rightarrow> pystr option \<Rightarrow>
     py_error + pyval" where
  "parse_argument py_int py_float a None =
     (if required a then Inl SystemExit else Inr (default_value a))"
| "parse_argument py_int py_float a (Some s) =
     (case convert py_int py_float (arg_type a) s of
        None \<Rightarrow> Inl SystemExit
      | Some v \<Rightarrow>
          (case choices a of
             None \<Rightarrow> Inr v
           | Some cs \<Rightarrow> if v \<in> set cs then Inr v else Inl SystemExit))"

fun parse_args ::
    "(pystr \<Rightarrow> int option) \<Rightarrow> (pystr \<Rightarrow> pyfloat option) \<Rightarrow> argument list \<Rightarrow>
     (string \<Rightarrow> pystr option) \<Rightarrow> py_error + (string \<times> pyval) list" where
  "parse_args py_int py_float [] given = Inr []"
| "parse_args py_int py_float (a # rest) given =
     and_then (parse_argument py_int py_float a (given (dest a))) (\<lambda>v.
     and_then (parse_args py_int py_float rest given) (\<lambda>namespace.
       Inr ((dest a, v) # namespace)))"

text \<open>
  \<^verbatim>\<open>main(**hparams)\<close>. The framework calls are parameters that can raise, each with the
  values the source hands to it: \<open>session_config\<close> is lines 55-67, \<open>run_config\<close> lines
  71-84 of iteration \<open>i\<close>, \<open>run_estimator\<close> lines 87-108 after
  \<^verbatim>\<open>tf.contrib.training.HParams(**hparams)\<close> has been built from the dictionary. The
  result lists the keyword arguments of every \<^verbatim>\<open>HParams\<close> built, in order.
\<close>

fun dict_get :: "(string \<times> pyval) list \<Rightarrow> string \<Rightarrow> py_error + pyval" where
  "dict_get d k = (case map_of d k of None \<Rightarrow> Inl KeyError | Some v \<Rightarrow> Inr v)"

fun py_range :: "pyval \<Rightarrow> py_error + nat list" where
  "py_range (PInt n) = Inr [0..<nat n]"
| "py_range (PBool b) = Inr [0..<(if b then 1 else 0)]"
| "py_range v = Inl TypeError"

fun repeat_loop ::
    "((string \<times> pyval) list \<Rightarrow> nat \<Rightarrow> py_error + 'rc) \<Rightarrow>
     ('rc \<Rightarrow> (string \<times> pyval) list \<Rightarrow> (string \<times> pyval) list \<Rightarrow> nat \<Rightarrow> py_error + unit) \<Rightarrow>
     (string \<times> pyval) list \<Rightarrow> nat list \<Rightarrow> (string \<times> pyval) list list \<Rightarrow>
     (string \<times> pyval) list list \<times> (py_error + unit)" where
  "repeat_loop run_config run_estimator hparams [] built = (built, Inr ())"
| "repeat_loop run_config run_estimator hparams (i # rest) built =
     (case run_config hparams i of
        Inl e \<Rightarrow> (built, Inl e)
      | Inr config \<Rightarrow>
          (case run_estimator config hparams hparams i of
             Inl e \<Rightarrow> (built @ [hparams], Inl e)
           | Inr u \<Rightarrow> repeat_loop run_config run_estimator hparams rest (built @ [hparams])))"

definition main ::
    "((string \<times> pyval) list \<Rightarrow> py_error + 'sc) \<Rightarrow>
     ('sc \<Rightarrow> (string \<times> pyval) list \<Rightarrow> nat \<Rightarrow> py_error + 'rc) \<Rightarrow>
     ('rc \<Rightarrow> (string \<times> pyval) list \<Rightarrow> (string \<times> pyval) list \<Rightarrow> nat \<Rightarrow> py_error + unit) \<Rightarrow>
     (string \<times> pyval) list \<Rightarrow> (string \<times> pyval) list list \<times> (py_error + unit)" where
  "main session_config run_config run_estimator hparams =
     (case session_config hparams of
        Inl e \<Rightarrow> ([], Inl e)
      | Inr sc \<Rightarrow>
          (case and_then (dict_get hparams ''repeats'') py_range of
             Inl e \<Rightarrow> ([], Inl e)
           | Inr iterations \<Rightarrow> repeat_loop (run_config sc) run_estimator hparams iterations []))"

text \<open>
  The names the top-level statements of \<^verbatim>\<open>input_da.py\<close> bind when the module is imported:
  its six imported names, \<^verbatim>\<open>VERBOSE\<close> and its six functions (the block under
  \<^verbatim>\<open>if __name__ == "__main__"\<close> does not run on import). \<^verbatim>\<open>from m import name\<close> raises
  \<^verbatim>\<open>ImportError\<close> for a name the module does not bind.
\<close>

definition input_da_names :: "string list" where
  "input_da_names =
     [''tf'', ''pd'', ''json'', ''TFIDFVec'', ''TFVec'', ''cosine_similarity'', ''VERBOSE'',
      ''get_input_fn'', ''get_input_fn_nli'', ''load_nli'', ''get_claim_evidence_pairs'',
      ''get_input_fn_fever'', ''load_fever_chunk'']"

definition import_from :: "string list \<Rightarrow> string \<Rightarrow> py_error + unit" where
  "import_from names name = (if name \<in> set names then Inr () else Inl ImportError)"

text \<open>
  A run of \<^verbatim>\<open>main.py\<close> as a script. The statements of the module run in order: line 8,
  \<^verbatim>\<open>from input_da import get_input_fn_da\<close>; lines 9-11, the imports from the modules
  \<^verbatim>\<open>input_fnc\<close>, \<^verbatim>\<open>model_fnc\<close> and \<^verbatim>\<open>model_da\<close>, which are not among the sources and are the
  parameter \<open>import_rest\<close>; the function definitions; then lines 113-190, which build the
  parser, parse the command line and call \<^verbatim>\<open>main(**vars(args))\<close>. The library imports of
  lines 1-4, and those \<^verbatim>\<open>input_da.py\<close> makes when it is imported, are taken to succeed (a
  missing library raises \<^verbatim>\<open>ImportError\<close> as well).
\<close>

definition script ::
    "(pystr \<Rightarrow> int option) \<Rightarrow> (pystr \<Rightarrow> pyfloat option) \<Rightarrow> py_error + unit \<Rightarrow>
     ((string \<times> pyval) list \<Rightarrow> py_error + 'sc) \<Rightarrow>
     ('sc \<Rightarrow> (string \<times> pyval) list \<Rightarrow> nat \<Rightarrow> py_error + 'rc) \<Rightarrow>
     ('rc \<Rightarrow> (string \<times> pyval) list \<Rightarrow> (string \<times> pyval) list \<Rightarrow> nat \<Rightarrow> py_error + unit) \<Rightarrow>
     (string \<Rightarrow> pystr option) \<Rightarrow> (string \<times> pyval) list list \<times> (py_error + unit)" where
  "script py_int py_float import_rest session_config run_config run_estimator given =
     (case and_then (import_from input_da_names ''get_input_fn_da'') (\<lambda>u. import_rest) of
        Inl e \<Rightarrow> ([], Inl e)
      | Inr u \<Rightarrow>
          (case parse_args py_int py_float parser given of
             Inl e \<Rightarrow> ([], Inl e)
           | Inr args \<Rightarrow> main session_config run_config run_estimator args))"

section \<open>Predicates of the statements\<close>

text \<open>
  A claim object with the evidence strings \<open>es\<close>, the claim string \<open>c\<close> and the label \<open>l\<close>:
  a value whose \<^verbatim>\<open>"evidence"\<close> is the list of the strings \<open>es\<close>, whose \<^verbatim>\<open>"claim"\<close> is the
  string \<open>c\<close> and whose \<^verbatim>\<open>"label"\<close> is \<open>l\<close>.
\<close>

definition claim_object :: "pyval \<Rightarrow> pystr list \<Rightarrow> pystr \<Rightarrow> pyval \<Rightarrow> bool" where
  "claim_object claim_set es c l \<longleftrightarrow>
     py_getitem claim_set (str ''evidence'') = Inr (PList (map PStr es)) \<and>
     py_getitem claim_set (str ''claim'') = Inr (PStr c) \<and>
     py_getitem claim_set (str ''label'') = Inr l"

text \<open>The mode strings the dispatch of an inner function knows.\<close>

definition known_mode :: "pyval \<Rightarrow> bool" where
  "known_mode mode \<longleftrightarrow>
     mode = PStr (str ''train'') \<or> mode = PStr (str ''eval'') \<or> mode = PStr (str ''predict'')"

section \<open>Example input\<close>

text \<open>
  Two claim objects, the elements of a JSON array; what the loop builds from them; a
  vectorizer whose row for a document is its length, so that with \<open>Pair\<close> as the
  similarity each entry of the matrix shows the claim and the evidence it compares.
\<close>

definition example_claim_sets :: "pyval list" where
  "example_claim_sets =
     [PDict [(str ''claim'', PStr (str ''cd'')),
             (str ''evidence'', PList [PStr (str ''a''), PStr (str ''b'')]),
             (str ''label'', PStr (str ''SUPPORTS''))],
      PDict [(str ''claim'', PStr (str ''g'')),
             (str ''evidence'', PList [PStr (str ''e''), PStr (str ''f''), PStr (str ''h'')]),
             (str ''label'', PStr (str ''REFUTES''))]]"

definition example_descr :: "(pystr list \<times> pystr \<times> pyval) list" where
  "example_descr =
     [([str ''a'', str ''b''], str ''cd'', PStr (str ''SUPPORTS'')),
      ([str ''e'', str ''f'', str ''h''], str ''g'', PStr (str ''REFUTES''))]"

definition example_lists :: pair_lists where
  "example_lists =
     \<lparr>claim_list = [PStr (str ''cd''), PStr (str ''g'')],
      evidence_list = [PStr (str ''ab''), PStr (str ''efh'')],
      label_list = PStr (str ''REFUTES''),
      document_list = [str ''abcd'', str ''efhg'']\<rparr>"

definition example_yielded :: "(nat \<times> (nat \<times> nat) list \<times> nat \<times> pyval) list" where
  "example_yielded =
     [(2, [(2, 2), (2, 3)], 2, PStr (str ''R'')), (1, [(1, 2), (1, 3)], 3, PStr (str ''E''))]"

definition example_fit :: "pystr list \<Rightarrow> py_error + (pystr \<Rightarrow> nat)" where
  "example_fit documents = Inr length"

text \<open>A command line giving the four required options, and the conversions it needs.\<close>

definition example_int :: "pystr \<Rightarrow> int option" where
  "example_int s = (if s = str ''1'' then Some 1 else if s = str ''7'' then Some 7 else None)"

definition example_given :: "string \<Rightarrow> pystr option" where
  "example_given =
     [''model_type'' \<mapsto> str ''1'', ''data_dir'' \<mapsto> str ''in'', ''output_dir'' \<mapsto> str ''out'',
      ''job_id'' \<mapsto> str ''7'']"

definition example_args :: "(string \<times> pyval) list" where
  "example_args =
     [(''model_type'', PInt 1), (''data_dir'', PStr (str ''in'')),
      (''output_dir'', PStr (str ''out'')), (''job_id'', PInt 7), (''repeats'', PInt 1),
      (''num_gpus'', PInt 1), (''num_cores'', PInt 4), (''train_steps'', PInt 100),
      (''batch_size'', PInt 128), (''eval_batch_size'', PInt 128),
      (''learning_rate'', PFloat (Dec 5 (- 4))), (''cutoff_len'', PInt 500)]"

section \<open>Lemmas on the loader\<close>

lemma and_then_eq_Inr: "and_then m f = Inr y \<longleftrightarrow> (\<exists>x. m = Inr x \<and> f x = Inr y)"
  by (cases m) simp_all

lemma concat_loop_strings: "concat_loop acc (map PStr es) = Inr (acc @ concat es)"
  by (induction es arbitrary: acc) simp_all

lemma claim_set_body_claim_object:
  assumes "claim_object claim_set es c l"
  shows "claim_set_body True st claim_set =
     Inr (st\<lparr>evidence_list := evidence_list st @ [PStr (concat es)],
             claim_list := claim_list st @ [PStr c],
             document_list := document_list st @ [concat es @ c],
             label_list := l\<rparr>)"
  using assms by (simp add: claim_object_def claim_set_body_def concat_loop_strings)

lemma claim_sets_loop_claim_objects:
  assumes "list_all2 (\<lambda>claim_set (es, c, l). claim_object claim_set es c l) claim_sets descr"
  shows "claim_sets_loop True st claim_sets =
     Inr \<lparr>claim_list = claim_list st @ map (\<lambda>(es, c, l). PStr c) descr,
          evidence_list = evidence_list st @ map (\<lambda>(es, c, l). PStr (concat es)) descr,
          label_list = (if descr = [] then label_list st else snd (snd (last descr))),
          document_list = document_list st @ map (\<lambda>(es, c, l). concat es @ c) descr\<rparr>"
  using assms
proof (induction claim_sets descr arbitrary: st rule: list_all2_induct)
  case Nil
  then show ?case by simp
next
  case (Cons claim_set claim_sets d descr)
  obtain es c l where d: "d = (es, c, l)" by (cases d)
  with Cons.hyps have "claim_object claim_set es c l" by simp
  then show ?case
    by (simp add: claim_set_body_claim_object Cons.IH d)
qed

lemma claim_set_body_lengths:
  assumes "claim_set_body ce st claim_set = Inr st'"
  shows "length (claim_list st') = Suc (length (claim_list st))
       \<and> length (evidence_list st') = Suc (length (evidence_list st))
       \<and> length (document_list st') = Suc (length (document_list st))"
  using assms unfolding claim_set_body_def
  by (auto simp: and_then_eq_Inr)

lemma claim_sets_loop_lengths:
  assumes "claim_sets_loop ce st claim_sets = Inr st'"
  shows "length (claim_list st') = length (claim_list st) + length claim_sets
       \<and> length (evidence_list st') = length (evidence_list st) + length claim_sets
       \<and> length (document_list st') = length (document_list st) + length claim_sets"
  using assms
proof (induction claim_sets arbitrary: st)
  case Nil
  then show ?case by simp
next
  case (Cons claim_set rest)
  from Cons.prems obtain st1 where
    body: "claim_set_body ce st claim_set = Inr st1" and
    loop: "claim_sets_loop ce st1 rest = Inr st'"
    by (auto simp: and_then_eq_Inr)
  from claim_set_body_lengths [OF body] Cons.IH [OF loop] show ?case by simp
qed

lemma transform_eq_Inr:
  "transform vec ds = Inr rows \<Longrightarrow> \<exists>ss. ds = map PStr ss \<and> rows = map vec ss"
proof (induction vec ds arbitrary: rows rule: transform.induct)
  case (1 vec)
  then show ?case by simp
next
  case (2 vec s rest)
  from "2.prems" obtain rows' where
    r: "transform vec rest = Inr rows'" and rows: "rows = vec s # rows'"
    by (auto simp: and_then_eq_Inr)
  from "2.IH" [OF r] obtain ss where "rest = map PStr ss" "rows' = map vec ss" by blast
  then have "PStr s # rest = map PStr (s # ss) \<and> rows = map vec (s # ss)" using rows by simp
  then show ?case by (rule exI [where x = "s # ss"])
qed simp_all

lemma yield_loop_nth:
  "i < length (yield_loop cs es sims ls) \<Longrightarrow>
     yield_loop cs es sims ls ! i = (cs ! i, sims ! i, es ! i, ls ! i)"
proof (induction cs es sims ls arbitrary: i rule: yield_loop.induct)
  case (1 c cs e es s sims l ls)
  then show ?case by (cases i) simp_all
qed simp_all

lemma cosine_similarity_eq_Inr:
  "cosine_similarity cos X Y = Inr M \<Longrightarrow> M = map (\<lambda>x. map (cos x) Y) X"
  by (simp add: cosine_similarity_def split: if_splits)

lemma claim_set_body_string: "claim_set_body ce st (PStr k) = Inl TypeError"
  by (simp add: claim_set_body_def)

text \<open>
  The function as a whole never returns: a value that is no dictionary cannot be indexed
  by \<^verbatim>\<open>"claim"\<close> (line 90), and the loop over a dictionary has the keys, which are
  strings, as its claim objects (line 96).
\<close>

lemma get_claim_evidence_pairs_raises:
  "\<exists>e. get_claim_evidence_pairs d mode ce = Inl e"
proof (cases d)
  case (PDict kvs)
  show ?thesis
  proof (cases "map_of kvs (str ''claim'')")
    case None
    with PDict show ?thesis by (simp add: get_claim_evidence_pairs_def)
  next
    case (Some c)
    then obtain kv rest where kvs: "kvs = kv # rest" by (cases kvs) auto
    show ?thesis
    proof (cases "map_of kvs (str ''evidence'')")
      case None
      with PDict Some show ?thesis by (simp add: get_claim_evidence_pairs_def)
    next
      case ev: (Some e)
      from PDict Some ev have "get_claim_evidence_pairs d mode ce = Inl TypeError"
        unfolding kvs by (simp add: get_claim_evidence_pairs_def claim_set_body_string)
      then show ?thesis by blast
    qed
  qed
qed (simp_all add: get_claim_evidence_pairs_def)

lemma example_claim_objects:
  "list_all2 (\<lambda>claim_set (es, c, l). claim_object claim_set es c l)
     example_claim_sets example_descr"
  by (simp add: example_claim_sets_def example_descr_def claim_object_def str_def)

lemma example_loop: "claim_sets_loop True empty_lists example_claim_sets = Inr example_lists"
  by (simp add: claim_sets_loop_claim_objects [OF example_claim_objects] empty_lists_def
      example_descr_def example_lists_def str_def)

lemma example_tuples:
  "load_nli_tuples example_fit example_fit Pair (claim_list example_lists)
     (evidence_list example_lists) (document_list example_lists) (label_list example_lists)
   = Inr example_yielded"
  by (simp add: load_nli_tuples_def example_fit_def example_lists_def cosine_similarity_def
      example_yielded_def str_def)

text \<open>
  The loop on its own, with \<^verbatim>\<open>concat_evidence\<close> true: it returns on claim objects, its
  evidence entries are the concatenations of the evidence strings and its document
  entries the concatenation followed by the claim string.
\<close>

lemma claim_sets_loop_concatenates:
  assumes "list_all2 (\<lambda>claim_set (es, c, l). claim_object claim_set es c l) claim_sets descr"
  shows "\<exists>st. claim_sets_loop True empty_lists claim_sets = Inr st
           \<and> evidence_list st = map (\<lambda>(es, c, l). PStr (concat es)) descr
           \<and> document_list st = map (\<lambda>(es, c, l). concat es @ c) descr"
  by (simp add: claim_sets_loop_claim_objects [OF assms] empty_lists_def)

text \<open>
  Lines 73-87 on their own: from the lists the loop builds out of \<open>n\<close> claim objects,
  \<^verbatim>\<open>cosine_similarity\<close> gives the \<open>n\<close>-by-\<open>n\<close> matrix of all pairs of a claim vector and an
  evidence vector, and each tuple yielded carries one whole row of it.
\<close>

lemma load_nli_tuples_all_pairs:
  assumes loop: "claim_sets_loop True empty_lists claim_sets = Inr st"
    and tuples: "load_nli_tuples fit_tf fit_tfidf cos (claim_list st) (evidence_list st)
                   (document_list st) (label_list st) = Inr tuples"
  shows "\<exists>tfidf_vec cs es tfidf_sims.
           fit_tfidf (document_list st) = Inr tfidf_vec
         \<and> claim_list st = map PStr cs \<and> length cs = length claim_sets
         \<and> evidence_list st = map PStr es \<and> length es = length claim_sets
         \<and> cosine_similarity cos (map tfidf_vec cs) (map tfidf_vec es) = Inr tfidf_sims
         \<and> length tfidf_sims = length claim_sets
         \<and> (\<forall>i<length claim_sets. length (tfidf_sims ! i) = length claim_sets
               \<and> (\<forall>j<length claim_sets.
                     tfidf_sims ! i ! j = cos (tfidf_vec (cs ! i)) (tfidf_vec (es ! j))))
         \<and> (\<forall>i<length tuples. fst (snd (tuples ! i)) = tfidf_sims ! i)"
proof -
  from tuples obtain tf_vec tfidf_vec tf_claims tf_evidences tfidf_claims tfidf_evidences
      tfidf_sims label_items where
    fit: "fit_tfidf (document_list st) = Inr tfidf_vec" and
    tc: "transform tfidf_vec (claim_list st) = Inr tfidf_claims" and
    te: "transform tfidf_vec (evidence_list st) = Inr tfidf_evidences" and
    sims: "cosine_similarity cos tfidf_claims tfidf_evidences = Inr tfidf_sims" and
    res: "tuples = yield_loop tf_claims tf_evidences tfidf_sims label_items"
    unfolding load_nli_tuples_def and_then_eq_Inr by auto
  from transform_eq_Inr [OF tc] obtain cs where
    cs: "claim_list st = map PStr cs" "tfidf_claims = map tfidf_vec cs" by blast
  from transform_eq_Inr [OF te] obtain es where
    es: "evidence_list st = map PStr es" "tfidf_evidences = map tfidf_vec es" by blast
  from claim_sets_loop_lengths [OF loop] cs es have
    len: "length cs = length claim_sets" "length es = length claim_sets"
    by (simp_all add: empty_lists_def)
  have M: "tfidf_sims = map (\<lambda>x. map (cos x) (map tfidf_vec es)) (map tfidf_vec cs)"
    using cosine_similarity_eq_Inr [OF sims] cs es by simp
  have rows: "\<forall>i<length claim_sets. length (tfidf_sims ! i) = length claim_sets
               \<and> (\<forall>j<length claim_sets.
                     tfidf_sims ! i ! j = cos (tfidf_vec (cs ! i)) (tfidf_vec (es ! j)))"
    using len by (simp add: M)
  have yielded: "\<forall>i<length tuples. fst (snd (tuples ! i)) = tfidf_sims ! i"
    by (simp add: res yield_loop_nth)
  have "length tfidf_sims = length claim_sets" using len by (simp add: M)
  with fit cs es len sims rows yielded show ?thesis by blast
qed

section \<open>Lemmas on the command line\<close>

lemma parse_args_keys:
  "parse_args py_int py_float args given = Inr ns \<Longrightarrow> map fst ns = map dest args"
  by (induction args arbitrary: ns) (auto simp: and_then_eq_Inr)

lemma parse_args_all:
  "parse_args py_int py_float args given = Inr ns \<Longrightarrow> a \<in> set args \<Longrightarrow>
     \<exists>v. parse_argument py_int py_float a (given (dest a)) = Inr v"
  by (induction args arbitrary: ns) (auto simp: and_then_eq_Inr)

lemma parse_args_head:
  "parse_args py_int py_float (a # rest) given = Inr ns \<Longrightarrow>
     \<exists>v. parse_argument py_int py_float a (given (dest a)) = Inr v \<and> map_of ns (dest a) = Some v"
  by (auto simp: and_then_eq_Inr)

lemma parse_argument_required:
  "parse_argument py_int py_float a raw = Inr v \<Longrightarrow> required a \<Longrightarrow> raw \<noteq> None"
  by (cases raw) simp_all

lemma parse_argument_choices:
  "parse_argument py_int py_float a raw = Inr v \<Longrightarrow> required a \<Longrightarrow> choices a = Some cs \<Longrightarrow>
     v \<in> set cs"
  by (cases raw) (auto split: option.splits if_splits)

lemma repeat_loop_built:
  "set (fst (repeat_loop run_config run_estimator hparams iterations built))
     \<subseteq> set built \<union> {hparams}"
proof (induction iterations arbitrary: built)
  case Nil
  then show ?case by auto
next
  case (Cons i rest)
  show ?case
    using Cons.IH [of "built @ [hparams]"] by (auto split: sum.splits)
qed

lemma main_built:
  "set (fst (main session_config run_config run_estimator hparams)) \<subseteq> {hparams}"
proof (cases "session_config hparams")
  case (Inl e)
  then show ?thesis by (simp add: main_def)
next
  case sc: (Inr sc)
  show ?thesis
  proof (cases "and_then (dict_get hparams ''repeats'') py_range")
    case (Inl e)
    with sc show ?thesis by (simp add: main_def)
  next
    case (Inr iterations)
    with sc repeat_loop_built [where built = "[]" and hparams = hparams]
    show ?thesis by (simp add: main_def)
  qed
qed

lemma example_parse:
  "parse_args example_int (\<lambda>s. None) parser example_given = Inr example_args"
  by (simp add: parser_def example_given_def example_int_def example_args_def str_def)

lemma example_main:
  "main (\<lambda>h. Inr ()) (\<lambda>sc h i. Inr ()) (\<lambda>rc hp h i. Inr ()) example_args
     = ([example_args], Inr ())"
  by (simp add: main_def example_args_def)

text \<open>
  The parser and \<^verbatim>\<open>main\<close> on their own: the twelve declared arguments, the four required
  ones, the model type of a parse that succeeds, and the keyword arguments of every
  \<^verbatim>\<open>HParams\<close> that \<^verbatim>\<open>main\<close> builds, which are the dictionary it was called with.
\<close>

lemma declared_arguments:
  "map dest parser =
     [''model_type'', ''data_dir'', ''output_dir'', ''job_id'', ''repeats'', ''num_gpus'',
      ''num_cores'', ''train_steps'', ''batch_size'', ''eval_batch_size'', ''learning_rate'',
      ''cutoff_len'']
 \<and> map option_strings parser =
     [[''-m'', ''--model''], [''-i'', ''--data-dir''], [''-o'', ''--output-dir''],
      [''-j'', ''--job-id''], [''-a'', ''--array-job''], [''-n'', ''--num-gpus''],
      [''-c'', ''--num-cpu-cores''], [''-s'', ''--train-steps''], [''-b'', ''--batch-size''],
      [''-e'', ''--eval-batch-size''], [''-l'', ''--learning-rate''], [''-u'', ''--cutoff'']]
 \<and> map dest (filter required parser) = [''model_type'', ''data_dir'', ''output_dir'', ''job_id'']
 \<and> (\<forall>args. parse_args py_int py_float parser given = Inr args \<longrightarrow>
        map fst args = map dest parser
      \<and> (map_of args ''model_type'' = Some (PInt 1) \<or> map_of args ''model_type'' = Some (PInt 2))
      \<and> given ''model_type'' \<noteq> None \<and> given ''data_dir'' \<noteq> None
      \<and> given ''output_dir'' \<noteq> None \<and> given ''job_id'' \<noteq> None)
 \<and> (\<forall>hparams \<in> set (fst (main session_config run_config run_estimator args')). hparams = args')"
proof (intro conjI allI impI)
  fix args
  assume ok: "parse_args py_int py_float parser given = Inr args"
  show "map fst args = map dest parser" by (rule parse_args_keys [OF ok])
  from ok obtain v where v: "parse_argument py_int py_float (hd parser) (given ''model_type'') = Inr v"
    and m: "map_of args ''model_type'' = Some v"
    using parse_args_head [of py_int py_float "hd parser" "tl parser" given args]
    by (auto simp: parser_def)
  from parse_argument_choices [OF v, of "[PInt 1, PInt 2]"] have "v = PInt 1 \<or> v = PInt 2"
    by (simp add: parser_def)
  with m show "map_of args ''model_type'' = Some (PInt 1) \<or> map_of args ''model_type'' = Some (PInt 2)"
    by auto
  have req: "given (dest a) \<noteq> None" if "a \<in> set parser" "required a" for a
    using parse_args_all [OF ok that(1)] parse_argument_required that(2) by blast
  show "given ''model_type'' \<noteq> None"
    using req [of "parser ! 0"] by (simp add: parser_def)
  show "given ''data_dir'' \<noteq> None"
    using req [of "parser ! 1"] by (simp add: parser_def)
  show "given ''output_dir'' \<noteq> None"
    using req [of "parser ! 2"] by (simp add: parser_def)
  show "given ''job_id'' \<noteq> None"
    using req [of "parser ! 3"] by (simp add: parser_def)
next
  show "\<forall>hparams \<in> set (fst (main session_config run_config run_estimator args')). hparams = args'"
    using main_built [of session_config run_config run_estimator args'] by auto
qed (simp_all add: parser_def)

section \<open>Properties\<close>

text \<open>
  C10. For every input that is a JSON array, \<^verbatim>\<open>get_claim_evidence_pairs\<close> fails before it
  processes any claim: its first statement indexes the whole input with the key
  \<^verbatim>\<open>"claim"\<close>, a type error for a list. So \<^verbatim>\<open>load_nli\<close> on a file holding a JSON array
  raises and yields no tuple.
\<close>

theorem json_array_rejected:
  assumes "read_json file = Inr (PList claim_sets)"
  shows "py_getitem (PList claim_sets) (str ''claim'') = Inl TypeError
       \<and> get_claim_evidence_pairs (PList claim_sets) mode concat_evidence = Inl TypeError
       \<and> load_nli read_json fit_tf fit_tfidf cos file = Inl TypeError"
  using assms by (simp add: get_claim_evidence_pairs_def load_nli_def)

theorem json_array_rejected_witness:
  "(\<lambda>file. Inr (PList example_claim_sets)) (str ''example_train.'') = Inr (PList example_claim_sets)
   \<and> py_getitem (PList example_claim_sets) (str ''claim'') = Inl TypeError
   \<and> get_claim_evidence_pairs (PList example_claim_sets) (PStr (str ''concat'')) True
       = Inl TypeError
   \<and> load_nli (\<lambda>file. Inr (PList example_claim_sets)) example_fit example_fit Pair
       (str ''example_train.'') = Inl TypeError"
  using json_array_rejected [of "\<lambda>file. Inr (PList example_claim_sets)" "str ''example_train.''"
      example_claim_sets "PStr (str ''concat'')" True example_fit example_fit Pair]
  by simp

text \<open>
  C1. \<^verbatim>\<open>load_nli\<close> is to compute the similarity of every claim vector with every evidence
  vector and to yield, for claim \<open>i\<close>, the \<open>i\<close>-th row of that matrix. On the file of the
  two example claim objects it raises a type error, whatever the vectorizers and the
  similarity are: no similarity is computed and no row is yielded.
\<close>

theorem load_nli_no_similarity:
  "load_nli (\<lambda>file. Inr (PList example_claim_sets)) fit_tf fit_tfidf cos file = Inl TypeError"
  by (simp add: load_nli_def get_claim_evidence_pairs_def)

text \<open>
  C5. \<^verbatim>\<open>get_claim_evidence_pairs\<close> is to append, for each claim object, the concatenation
  of its evidence strings and, as its document, that concatenation followed by the claim
  string. On the two example claim objects, with \<^verbatim>\<open>concat_evidence\<close> true, it raises a
  type error and returns no evidence entry and no document entry.
\<close>

theorem get_claim_evidence_pairs_no_concatenation:
  "get_claim_evidence_pairs (PList example_claim_sets) mode True = Inl TypeError"
  by (simp add: get_claim_evidence_pairs_def)

text \<open>
  C2. \<^verbatim>\<open>load_nli\<close> is to yield one tuple for each claim of the file. On the file of the
  two example claim objects it raises a type error and yields nothing.
\<close>

theorem load_nli_example_raises:
  "load_nli (\<lambda>file. Inr (PList example_claim_sets)) example_fit example_fit Pair
     (str ''example_train.'') = Inl TypeError"
  by (simp add: load_nli_def get_claim_evidence_pairs_def)

text \<open>
  C3. One label for each claim. On the two example claim objects the loop leaves in
  \<^verbatim>\<open>label_list\<close> the label of the last claim object, not the list of both labels; the
  labels of the tuples then taken from it are its characters; and the whole function
  raises a type error before the loop.
\<close>

theorem label_list_overwritten:
  "(\<exists>st. claim_sets_loop True empty_lists example_claim_sets = Inr st
        \<and> label_list st = PStr (str ''REFUTES'')
        \<and> label_list st \<noteq> PList [PStr (str ''SUPPORTS''), PStr (str ''REFUTES'')]
        \<and> map_sum id (map (\<lambda>t. snd (snd (snd t))))
             (load_nli_tuples example_fit example_fit Pair (claim_list st) (evidence_list st)
                (document_list st) (label_list st))
            = Inr [PStr (str ''R''), PStr (str ''E'')])
 \<and> get_claim_evidence_pairs (PList example_claim_sets) (PStr (str ''concat'')) True
      = Inl TypeError"
  by (simp add: example_loop example_tuples get_claim_evidence_pairs_def)
     (simp add: example_lists_def example_yielded_def)

text \<open>
  C7. \<^verbatim>\<open>load_fever_chunk\<close> is dead code: its loop runs over an empty list, so for every
  file and every chunk size it never calls \<^verbatim>\<open>read_csv\<close> and returns \<^verbatim>\<open>None\<close>.
\<close>

theorem load_fever_chunk_dead:
  "load_fever_chunk read_csv file chunk_size = ([], Inr PNone)"
  by (simp add: load_fever_chunk_def)

text \<open>
  C6. The pipeline of \<^verbatim>\<open>get_input_fn\<close> is a stub: for each of the modes \<^verbatim>\<open>'train'\<close>,
  \<^verbatim>\<open>'eval'\<close> and \<^verbatim>\<open>'predict'\<close> the inner function returns \<^verbatim>\<open>None\<close>, whatever \<^verbatim>\<open>params\<close> is.
\<close>

theorem get_input_fn_stubbed:
  "get_input_fn m (PStr (str ''train'')) params = Inr PNone
 \<and> get_input_fn m (PStr (str ''eval'')) params = Inr PNone
 \<and> get_input_fn m (PStr (str ''predict'')) params = Inr PNone"
  by (simp add: get_input_fn_def)



text \<open>
  C4, as amended. The function an input-function factory returns raises \<^verbatim>\<open>ValueError\<close> when
  it is called with a mode other than \<^verbatim>\<open>'train'\<close>, \<^verbatim>\<open>'eval'\<close> and \<^verbatim>\<open>'predict'\<close>; called with
  one of the three, its mode dispatch raises nothing: \<^verbatim>\<open>get_input_fn\<close> returns \<^verbatim>\<open>None\<close>, the
  other two hand their generator to the framework. The mode given to the factory plays
  no part.
\<close>

theorem mode_dispatch:
  "(\<not> known_mode mode \<longrightarrow>
       call_input_fn (get_input_fn m) (Some mode) params = Inl ValueError
     \<and> call_input_fn (get_input_fn_nli read_json fit_tf fit_tfidf cos from_generator m)
         (Some mode) params = Inl ValueError
     \<and> call_input_fn (get_input_fn_fever read_csv from_generator' m) (Some mode) params
         = Inl ValueError)
 \<and> (known_mode mode \<longrightarrow>
       call_input_fn (get_input_fn m) (Some mode) params = Inr PNone
     \<and> (\<exists>file. call_input_fn (get_input_fn_nli read_json fit_tf fit_tfidf cos from_generator m)
           (Some mode) params = from_generator (load_nli read_json fit_tf fit_tfidf cos file))
     \<and> call_input_fn (get_input_fn_fever read_csv from_generator' m) (Some mode) params
         = from_generator' PNone)"
  by (auto simp: known_mode_def get_input_fn_def get_input_fn_nli_def get_input_fn_fever_def
      call_input_fn_def load_fever_chunk_def)

theorem mode_dispatch_witness:
  "\<not> known_mode (PStr (str ''bogus''))
 \<and> call_input_fn (get_input_fn (PStr (str ''train''))) (Some (PStr (str ''bogus''))) None
     = Inl ValueError
 \<and> known_mode (PStr (str ''eval''))
 \<and> call_input_fn (get_input_fn (PStr (str ''bogus''))) (Some (PStr (str ''eval''))) None
     = Inr PNone"
proof -
  have unknown: "\<not> known_mode (PStr (str ''bogus''))"
    by (simp add: known_mode_def str_def)
  have known: "known_mode (PStr (str ''eval''))"
    by (simp add: known_mode_def)
  from unknown known
    mode_dispatch [where mode = "PStr (str ''bogus'')" and m = "PStr (str ''train'')"
      and params = None]
    mode_dispatch [where mode = "PStr (str ''eval'')" and m = "PStr (str ''bogus'')"
      and params = None]
  show ?thesis by blast
qed

text \<open>
  C4, as stated, fails: an unknown mode given to the factory raises nothing, and a known
  mode given to the factory does not keep the returned function from raising
  \<^verbatim>\<open>ValueError\<close>.
\<close>

theorem mode_dispatch_counterexample:
  "call_input_fn (get_input_fn (PStr (str ''bogus''))) (Some (PStr (str ''train''))) None = Inr PNone
 \<and> call_input_fn (get_input_fn (PStr (str ''train''))) None None = Inl ValueError"
  by (simp add: get_input_fn_def call_input_fn_def)

text \<open>
  C8. The command line is to take the twelve flags and to pass every parsed argument into
  the \<^verbatim>\<open>HParams\<close> object. A run of \<^verbatim>\<open>main.py\<close> raises \<^verbatim>\<open>ImportError\<close> at line 8, on every
  command line and before the parser is built: \<^verbatim>\<open>input_da.py\<close> binds no
  \<^verbatim>\<open>get_input_fn_da\<close>. No argument is parsed and no \<^verbatim>\<open>HParams\<close> is built.
\<close>

theorem script_import_error:
  "script py_int py_float import_rest session_config run_config run_estimator given
     = ([], Inl ImportError)"
  by (simp add: script_def import_from_def input_da_names_def)

end
